theory Spec2Isabelle
  imports Complex_Main "HOL-Library.Multiset"
begin

section \<open>The HTTP layer of the two API clients\<close>

text \<open>
  Both \<^verbatim>\<open>ApiClient\<close> classes (the one of \<^verbatim>\<open>api.js\<close> and the older one kept in
  \<^verbatim>\<open>src/unnamed/part_005\<close>) funnel every operation through
  \<^verbatim>\<open>request(endpoint, options)\<close>, which prefixes the endpoint with
  \<^verbatim>\<open>API_BASE_URL\<close> and hands the options to \<^verbatim>\<open>fetch\<close>. A request is modelled
  by what reaches \<^verbatim>\<open>fetch\<close>: the method (\<^verbatim>\<open>GET\<close> when the options name none), the
  endpoint, the URL and the body that was passed to \<^verbatim>\<open>JSON.stringify\<close>.
\<close>

definition API_BASE_URL :: string where
  "API_BASE_URL = ''http://localhost:8000/api''"

record 'b http_request =
  rq_method :: string
  rq_endpoint :: string
  rq_url :: string
  rq_body :: "'b option"

definition request :: "string \<Rightarrow> string option \<Rightarrow> 'b option \<Rightarrow> 'b http_request" where
  "request endpoint method body =
     \<lparr> rq_method = (case method of None \<Rightarrow> ''GET'' | Some m \<Rightarrow> m),
       rq_endpoint = endpoint,
       rq_url = API_BASE_URL @ endpoint,
       rq_body = body \<rparr>"

subsection \<open>Numbers inside template literals\<close>

text \<open>
  \<^verbatim>\<open>`?limit=${limit}`\<close> prints a non-negative integer in decimal.
\<close>

definition digit_char :: "nat \<Rightarrow> char" where
  "digit_char d = char_of (48 + d)"

fun string_of_nat :: "nat \<Rightarrow> string" where
  "string_of_nat n =
     (if n < 10 then [digit_char n] else string_of_nat (n div 10) @ [digit_char (n mod 10)])"

subsection \<open>The client of \<^verbatim>\<open>api.js\<close>\<close>

definition createBacklogItem :: "'b \<Rightarrow> 'b http_request" where
  "createBacklogItem data = request ''/backlog/'' (Some ''POST'') (Some data)"

definition updateBacklogItem :: "string \<Rightarrow> 'b \<Rightarrow> 'b http_request" where
  "updateBacklogItem ident data = request (''/backlog/'' @ ident) (Some ''PUT'') (Some data)"

definition getSprintContext :: "string \<Rightarrow> 'b http_request" where
  "getSprintContext sprintId = request (''/impact/sprints/'' @ sprintId @ ''/context'') None None"

definition analyzeImpact :: "'b \<Rightarrow> 'b http_request" where
  "analyzeImpact data = request ''/impact/analyze'' (Some ''POST'') (Some data)"

definition recordImpactFeedback :: "string \<Rightarrow> 'b \<Rightarrow> 'b http_request" where
  "recordImpactFeedback logId data =
     request (''/impact/logs/'' @ logId @ ''/feedback'') (Some ''PATCH'') (Some data)"

text \<open>\<^verbatim>\<open>getAnalysisHistory(spaceId, limit = 50)\<close>: an omitted limit is \<open>None\<close>.\<close>

definition getAnalysisHistory :: "string \<Rightarrow> nat option \<Rightarrow> 'b http_request" where
  "getAnalysisHistory spaceId limit =
     request (''/impact/history/'' @ spaceId @ ''?limit=''
                @ string_of_nat (case limit of None \<Rightarrow> 50 | Some l \<Rightarrow> l)) None None"

definition getSprintBurndown :: "string \<Rightarrow> 'b http_request" where
  "getSprintBurndown sprintId =
     request (''/analytics/sprints/'' @ sprintId @ ''/burndown'') None None"

definition getSprintBurnup :: "string \<Rightarrow> 'b http_request" where
  "getSprintBurnup sprintId =
     request (''/analytics/sprints/'' @ sprintId @ ''/burnup'') None None"

definition getVelocityChart :: "string \<Rightarrow> 'b http_request" where
  "getVelocityChart spaceId =
     request (''/analytics/spaces/'' @ spaceId @ ''/velocity'') None None"

definition predictStoryPoints :: "'b \<Rightarrow> 'b http_request" where
  "predictStoryPoints data = request ''/ai/predict'' (Some ''POST'') (Some data)"

subsection \<open>The older client of \<^verbatim>\<open>src/unnamed/part_005\<close>\<close>

definition legacy_createBacklogItem :: "'b \<Rightarrow> 'b http_request" where
  "legacy_createBacklogItem data = request ''/backlog/'' (Some ''POST'') (Some data)"

definition legacy_updateBacklogItem :: "string \<Rightarrow> 'b \<Rightarrow> 'b http_request" where
  "legacy_updateBacklogItem ident data =
     request (''/backlog/'' @ ident) (Some ''PUT'') (Some data)"

definition legacy_analyzeImpact :: "'b \<Rightarrow> 'b http_request" where
  "legacy_analyzeImpact data = request ''/impact/analyze'' (Some ''POST'') (Some data)"

definition legacy_getSprintContext :: "string \<Rightarrow> 'b http_request" where
  "legacy_getSprintContext sprintId =
     request (''/impact/sprint/'' @ sprintId @ ''/context'') None None"

definition legacy_predictStoryPoints :: "'b \<Rightarrow> 'b http_request" where
  "legacy_predictStoryPoints data =
     request ''/ai/predict-story-points'' (Some ''POST'') (Some data)"

definition legacy_getSprintBurndown :: "string \<Rightarrow> 'b http_request" where
  "legacy_getSprintBurndown sprintId = request (''/sprints/'' @ sprintId @ ''/burndown'') None None"

definition legacy_getSprintBurnup :: "string \<Rightarrow> 'b http_request" where
  "legacy_getSprintBurnup sprintId = request (''/sprints/'' @ sprintId @ ''/burnup'') None None"

definition legacy_getVelocityChart :: "string \<Rightarrow> 'b http_request" where
  "legacy_getVelocityChart spaceId = request (''/spaces/'' @ spaceId @ ''/velocity'') None None"

section \<open>ImpactAnalyzer: executing a recommendation\<close>

text \<open>
  \<^verbatim>\<open>ImpactAnalyzer.jsx\<close> (the current version, the first of the two kept in the file)
  executes the action the user picks on a recommendation card. A JavaScript value that may
  be \<^verbatim>\<open>null\<close> or \<^verbatim>\<open>undefined\<close> is an \<open>option\<close>; an \<^verbatim>\<open>Error\<close> is its message.
\<close>

record form_data =
  fd_title :: string
  fd_description :: string
  fd_story_points :: int
  fd_priority :: string
  fd_type :: string

text \<open>The object handed to \<^verbatim>\<open>createBacklogItem\<close>: \<^verbatim>\<open>{ ...base, sprint_id }\<close>.\<close>

record backlog_payload =
  bp_title :: string
  bp_description :: string
  bp_story_points :: int
  bp_priority :: string
  bp_type :: string
  bp_space_id :: string
  bp_status :: string
  bp_sprint_id :: "string option"

record feedback_payload =
  fb_accepted :: bool
  fb_taken_action :: string

text \<open>
  The three request bodies of this component: a new backlog item, the patch
  \<^verbatim>\<open>{ sprint_id: null }\<close> of an existing one, and the feedback on an analysis log.
\<close>

datatype body =
    CreateItem backlog_payload
  | UpdateItem "string option"
  | Feedback feedback_payload

record target_ticket =
  tk_id :: "string option"
  tk_title :: string

record recommendation =
  recommendation_type :: "string option"
  reasoning :: string
  target_ticket :: "target_ticket option"

text \<open>What \<^verbatim>\<open>executeAction\<close> returns; \<^verbatim>\<open>requiresManual\<close> is only set by \<^verbatim>\<open>SPLIT\<close>.\<close>

record 'r action_result =
  ar_ok :: bool
  ar_requiresManual :: bool
  ar_message :: string
  ar_data :: 'r

text \<open>
  The backend is a parameter: a server takes its state and a request and answers with its
  new state and either the message of the error that \<^verbatim>\<open>request\<close> throws (any response
  that is not \<^verbatim>\<open>ok\<close>, or a rejected \<^verbatim>\<open>fetch\<close>) or the parsed response. A session is
  the server's state together with the list of requests sent so far.
\<close>

type_synonym ('w, 'r) server = "'w \<Rightarrow> body http_request \<Rightarrow> 'w \<times> (string + 'r)"

record 'w session =
  world :: 'w
  sent :: "body http_request list"

definition call ::
  "('w, 'r) server \<Rightarrow> body http_request \<Rightarrow> 'w session \<Rightarrow> 'w session \<times> (string + 'r)" where
  "call srv req s =
     (case srv (world s) req of
        (w', res) \<Rightarrow> (\<lparr> world = w', sent = sent s @ [req] \<rparr>, res))"

definition quoted :: "string \<Rightarrow> string" where
  "quoted t = [CHR 0x22] @ t @ [CHR 0x22]"

definition base_payload :: "string \<Rightarrow> form_data \<Rightarrow> backlog_payload" where
  "base_payload spaceId formData =
     \<lparr> bp_title = fd_title formData,
       bp_description = fd_description formData,
       bp_story_points = fd_story_points formData,
       bp_priority = fd_priority formData,
       bp_type = fd_type formData,
       bp_space_id = spaceId,
       bp_status = ''To Do'',
       bp_sprint_id = None \<rparr>"

definition create_request :: "string \<Rightarrow> form_data \<Rightarrow> string option \<Rightarrow> body http_request" where
  "create_request spaceId formData sprint =
     createBacklogItem (CreateItem ((base_payload spaceId formData)\<lparr>bp_sprint_id := sprint\<rparr>))"

text \<open>
  \<^verbatim>\<open>recommendation?.target_ticket\<close> with the test \<^verbatim>\<open>!target?.id\<close>: the target counts
  only when the recommendation, the ticket and a non-empty id are all there.
\<close>

definition swap_target :: "recommendation option \<Rightarrow> (string \<times> string) option" where
  "swap_target recommendation =
     (case recommendation of
        None \<Rightarrow> None
      | Some r \<Rightarrow>
          (case target_ticket r of
             None \<Rightarrow> None
           | Some t \<Rightarrow>
               (case tk_id t of
                  None \<Rightarrow> None
                | Some i \<Rightarrow> if i = [] then None else Some (i, tk_title t))))"

text \<open>
  \<^verbatim>\<open>executeAction(action, recommendation, sprintId, spaceId, formData)\<close>: the
  \<^verbatim>\<open>switch\<close> in the order of the source. Every \<^verbatim>\<open>await\<close> is one \<open>call\<close>; an error
  of a call leaves the function at once, with whatever the server did until then. The arrow
  of the swap message is its three UTF-8 bytes.
\<close>

definition executeAction ::
  "('w, 'r) server \<Rightarrow> string \<Rightarrow> recommendation option \<Rightarrow> string option \<Rightarrow> string
     \<Rightarrow> form_data \<Rightarrow> 'w session \<Rightarrow> 'w session \<times> (string + 'r action_result)" where
  "executeAction srv action recommendation sprintId spaceId formData s =
     (let base = base_payload spaceId formData in
      if action = ''ADD'' \<or> action = ''ACCEPT'' then
        (case call srv (createBacklogItem (CreateItem (base\<lparr>bp_sprint_id := sprintId\<rparr>))) s of
           (s1, Inl err) \<Rightarrow> (s1, Inl err)
         | (s1, Inr res) \<Rightarrow>
             (s1, Inr \<lparr> ar_ok = True, ar_requiresManual = False,
                        ar_message = quoted (fd_title formData) @ '' added to sprint.'',
                        ar_data = res \<rparr>))
      else if action = ''SWAP'' then
        (case swap_target recommendation of
           None \<Rightarrow> (s, Inl ''No swap target in recommendation.'')
         | Some (targetId, targetTitle) \<Rightarrow>
             (case call srv (updateBacklogItem targetId (UpdateItem None)) s of
                (s1, Inl err) \<Rightarrow> (s1, Inl err)
              | (s1, Inr _) \<Rightarrow>
                  (case call srv
                          (createBacklogItem (CreateItem (base\<lparr>bp_sprint_id := sprintId\<rparr>))) s1 of
                     (s2, Inl err) \<Rightarrow> (s2, Inl err)
                   | (s2, Inr res) \<Rightarrow>
                       (s2, Inr \<lparr> ar_ok = True, ar_requiresManual = False,
                                  ar_message = ''Swapped: '' @ quoted targetTitle
                                    @ [CHR 0x20, CHR 0xE2, CHR 0x86, CHR 0x92] @ '' backlog. ''
                                    @ quoted (fd_title formData)
                                    @ [CHR 0x20, CHR 0xE2, CHR 0x86, CHR 0x92] @ '' sprint.'',
                                  ar_data = res \<rparr>))))
      else if action = ''DEFER'' then
        (case call srv (createBacklogItem (CreateItem (base\<lparr>bp_sprint_id := None\<rparr>))) s of
           (s1, Inl err) \<Rightarrow> (s1, Inl err)
         | (s1, Inr res) \<Rightarrow>
             (s1, Inr \<lparr> ar_ok = True, ar_requiresManual = False,
                        ar_message = quoted (fd_title formData)
                          @ '' saved to backlog for next sprint.'',
                        ar_data = res \<rparr>))
      else if action = ''SPLIT'' then
        (case call srv (createBacklogItem (CreateItem (base\<lparr>bp_sprint_id := None\<rparr>))) s of
           (s1, Inl err) \<Rightarrow> (s1, Inl err)
         | (s1, Inr res) \<Rightarrow>
             (s1, Inr \<lparr> ar_ok = True, ar_requiresManual = True,
                        ar_message = quoted (fd_title formData)
                          @ '' saved to backlog. Split it into sub-tickets before planning.'',
                        ar_data = res \<rparr>))
      else (s, Inl (''Unknown action: '' @ action)))"

text \<open>JavaScript truthiness of an id: there, and not the empty string.\<close>

definition truthy :: "string option \<Rightarrow> bool" where
  "truthy v = (case v of None \<Rightarrow> False | Some x \<Rightarrow> x \<noteq> [])"

text \<open>
  \<^verbatim>\<open>logFeedback(logId, accepted, takenAction)\<close>: nothing without a log id; otherwise
  one \<^verbatim>\<open>PATCH\<close>, inside \<^verbatim>\<open>try { ... } catch (_) {}\<close>, so its result is dropped
  whether it is an error or not.
\<close>

definition logFeedback ::
  "('w, 'r) server \<Rightarrow> string option \<Rightarrow> bool \<Rightarrow> string \<Rightarrow> 'w session \<Rightarrow> 'w session" where
  "logFeedback srv logId accepted takenAction s =
     (case logId of
        None \<Rightarrow> s
      | Some l \<Rightarrow>
          if l = [] then s
          else fst (call srv (recordImpactFeedback l
                      (Feedback \<lparr> fb_accepted = accepted, fb_taken_action = takenAction \<rparr>)) s))"

text \<open>
  The state of a \<^verbatim>\<open>RecommendationCard\<close> that \<^verbatim>\<open>handleAction\<close> touches: the three
  \<^verbatim>\<open>useState\<close> cells, the alerts raised, and the result passed to \<^verbatim>\<open>onActionDone\<close>.
\<close>

record 'r card_state =
  cs_executing :: bool
  cs_done :: bool
  cs_doneMsg :: string
  cs_alerts :: "string list"
  cs_actionDone :: "'r action_result option"

record card_props =
  cp_recommendation :: "recommendation option"
  cp_formData :: form_data
  cp_sprintId :: "string option"
  cp_spaceId :: string
  cp_logId :: "string option"

text \<open>\<^verbatim>\<open>const type = recommendation?.recommendation_type ?? 'DEFER'\<close>.\<close>

definition card_type :: "recommendation option \<Rightarrow> string" where
  "card_type recommendation =
     (case recommendation of
        None \<Rightarrow> ''DEFER''
      | Some r \<Rightarrow> (case recommendation_type r of None \<Rightarrow> ''DEFER'' | Some t \<Rightarrow> t))"

definition taken_action_of :: "string \<Rightarrow> string \<Rightarrow> string" where
  "taken_action_of actionType type =
     (if actionType = type then ''FOLLOWED_RECOMMENDATION'' else ''IGNORED_RECOMMENDATION'')"

text \<open>
  \<^verbatim>\<open>handleAction(actionType)\<close>: the \<^verbatim>\<open>try\<close> block runs the action and then the
  feedback; the \<^verbatim>\<open>catch\<close> raises the alert; \<^verbatim>\<open>finally\<close> clears \<^verbatim>\<open>executing\<close>.
\<close>

definition handleAction ::
  "('w, 'r) server \<Rightarrow> card_props \<Rightarrow> string \<Rightarrow> 'w session \<times> 'r card_state
     \<Rightarrow> 'w session \<times> 'r card_state" where
  "handleAction srv props actionType st =
     (case st of (s, ui) \<Rightarrow>
       (let ui1 = ui\<lparr>cs_executing := True\<rparr> in
        case executeAction srv actionType (cp_recommendation props) (cp_sprintId props)
               (cp_spaceId props) (cp_formData props) s of
          (s1, Inl err) \<Rightarrow>
            (s1, ui1\<lparr>cs_alerts := cs_alerts ui1 @ [''Action failed: '' @ err],
                     cs_executing := False\<rparr>)
        | (s1, Inr result) \<Rightarrow>
            (let s2 = logFeedback srv (cp_logId props) True
                        (taken_action_of actionType (card_type (cp_recommendation props))) s1
             in (s2, ui1\<lparr>cs_done := True, cs_doneMsg := ar_message result,
                          cs_actionDone := Some result, cs_executing := False\<rparr>))))"

text \<open>Two observations of a run of \<^verbatim>\<open>handleAction\<close>: how the action ended, and the
  feedback payloads that the run added to the requests sent.\<close>

definition action_outcome ::
  "('w, 'r) server \<Rightarrow> card_props \<Rightarrow> string \<Rightarrow> 'w session \<Rightarrow> string + 'r action_result" where
  "action_outcome srv props a s =
     snd (executeAction srv a (cp_recommendation props) (cp_sprintId props)
            (cp_spaceId props) (cp_formData props) s)"

definition feedback_bodies :: "body http_request list \<Rightarrow> feedback_payload list" where
  "feedback_bodies reqs =
     concat (map (\<lambda>r. case rq_body r of Some (Feedback f) \<Rightarrow> [f] | _ \<Rightarrow> []) reqs)"

definition new_feedback ::
  "('w, 'r) server \<Rightarrow> card_props \<Rightarrow> string \<Rightarrow> 'w session \<Rightarrow> 'r card_state
     \<Rightarrow> feedback_payload list" where
  "new_feedback srv props a s ui =
     drop (length (feedback_bodies (sent s)))
       (feedback_bodies (sent (fst (handleAction srv props a (s, ui)))))"

section \<open>The backend behind the client\<close>

text \<open>
  The FastAPI service is not among the sources. Where a statement needs a backend to run
  against, this one is used; the properties of \<^verbatim>\<open>executeAction\<close> and
  \<^verbatim>\<open>handleAction\<close> themselves are proved for every server.
\<close>

record analysis_log =
  al_log_id :: string
  al_space_id :: string
  al_date :: int
  al_item :: string
  al_recommendation :: string
  al_taken_action :: "string option"
  al_accepted :: "bool option"

record backend =
  be_items :: "(string \<times> backlog_payload) list"
  be_logs :: "analysis_log list"
  be_outcomes :: "bool list"

datatype response = RItem string backlog_payload | ROk

definition strip_prefix :: "string \<Rightarrow> string \<Rightarrow> string option" where
  "strip_prefix p s = (if take (length p) s = p then Some (drop (length p) s) else None)"

definition strip_suffix :: "string \<Rightarrow> string \<Rightarrow> string option" where
  "strip_suffix p s = map_option rev (strip_prefix (rev p) (rev s))"

definition feedback_log_id :: "string \<Rightarrow> string option" where
  "feedback_log_id endpoint =
     (case strip_prefix ''/impact/logs/'' endpoint of
        None \<Rightarrow> None
      | Some rest \<Rightarrow> strip_suffix ''/feedback'' rest)"

text \<open>
  Modelled from the spec: the CRUD layer and the AnalysisLogStore behind the routes that the
  component calls (the backend's route handlers are missing from the sources). Creating a
  backlog item stores the item as sent under a fresh id; updating one is a field mutation
  of its sprint reference and fails with NotFound for an unknown id;
  \<^verbatim>\<open>patch(log_id, {accepted, taken_action})\<close> stores the two fields as they are sent
  and fails with NotFound for an unknown log id. A request that fails changes nothing.
\<close>

definition handle_request :: "backend \<Rightarrow> body http_request \<Rightarrow> backend \<times> (string + response)" where
  "handle_request b req =
     (case rq_body req of
        Some (CreateItem p) \<Rightarrow>
          if rq_method req = ''POST'' \<and> rq_endpoint req = ''/backlog/'' then
            (let i = ''item-'' @ string_of_nat (length (be_items b))
             in (b\<lparr>be_items := be_items b @ [(i, p)]\<rparr>, Inr (RItem i p)))
          else (b, Inl ''Not Found'')
      | Some (UpdateItem sp) \<Rightarrow>
          (case strip_prefix ''/backlog/'' (rq_endpoint req) of
             None \<Rightarrow> (b, Inl ''Not Found'')
           | Some i \<Rightarrow>
               if rq_method req = ''PUT'' \<and> i \<in> set (map fst (be_items b)) then
                 (b\<lparr>be_items := map (\<lambda>(j, p). if j = i then (j, p\<lparr>bp_sprint_id := sp\<rparr>)
                                               else (j, p))
                                     (be_items b)\<rparr>, Inr ROk)
               else (b, Inl ''Backlog item not found''))
      | Some (Feedback f) \<Rightarrow>
          (case feedback_log_id (rq_endpoint req) of
             None \<Rightarrow> (b, Inl ''Not Found'')
           | Some l \<Rightarrow>
               if rq_method req = ''PATCH'' \<and> l \<in> set (map al_log_id (be_logs b)) then
                 (b\<lparr>be_logs := map (\<lambda>g. if al_log_id g = l
                                          then g\<lparr>al_taken_action := Some (fb_taken_action f),
                                                  al_accepted := Some (fb_accepted f)\<rparr>
                                          else g) (be_logs b)\<rparr>, Inr ROk)
               else (b, Inl ''Log not found''))
      | None \<Rightarrow> (b, Inl ''Not Found''))"

text \<open>
  Modelled from the spec: StorageUnavailable. The transport may fail any request:
  \<open>be_outcomes\<close> scripts the coming requests (\<open>False\<close>: the request never reaches the
  handler and \<^verbatim>\<open>fetch\<close> rejects), and every request after the script succeeds.
\<close>

definition backend_serve :: "backend \<Rightarrow> body http_request \<Rightarrow> backend \<times> (string + response)" where
  "backend_serve b req =
     (case be_outcomes b of
        [] \<Rightarrow> handle_request b req
      | ok # rest \<Rightarrow>
          if ok then handle_request (b\<lparr>be_outcomes := rest\<rparr>) req
          else (b\<lparr>be_outcomes := rest\<rparr>, Inl ''Failed to fetch''))"

subsection \<open>A sprint, a candidate and a pending analysis\<close>

definition candidate :: form_data where
  "candidate = \<lparr> fd_title = ''Pay'', fd_description = ''Gateway'', fd_story_points = 5,
                 fd_priority = ''High'', fd_type = ''Task'' \<rparr>"

definition old_item :: backlog_payload where
  "old_item = \<lparr> bp_title = ''Docs'', bp_description = ''Write docs'', bp_story_points = 5,
                bp_priority = ''Low'', bp_type = ''Task'', bp_space_id = ''sp1'',
                bp_status = ''To Do'', bp_sprint_id = Some ''s1'' \<rparr>"

definition swap_rec :: recommendation where
  "swap_rec = \<lparr> recommendation_type = Some ''SWAP'', reasoning = ''Schedule risk is critical'',
                target_ticket = Some \<lparr> tk_id = Some ''t1'', tk_title = ''Docs'' \<rparr> \<rparr>"

definition pending_log :: analysis_log where
  "pending_log = \<lparr> al_log_id = ''L1'', al_space_id = ''sp1'', al_date = 100, al_item = ''Pay'',
                   al_recommendation = ''SWAP'', al_taken_action = None, al_accepted = None \<rparr>"

definition backend0 :: "bool list \<Rightarrow> backend" where
  "backend0 outcomes = \<lparr> be_items = [(''t1'', old_item)], be_logs = [pending_log],
                         be_outcomes = outcomes \<rparr>"

definition session0 :: "bool list \<Rightarrow> backend session" where
  "session0 outcomes = \<lparr> world = backend0 outcomes, sent = [] \<rparr>"

definition card0 :: "string option \<Rightarrow> card_props" where
  "card0 logId = \<lparr> cp_recommendation = Some swap_rec, cp_formData = candidate,
                   cp_sprintId = Some ''s1'', cp_spaceId = ''sp1'', cp_logId = logId \<rparr>"



definition ui0 :: "response card_state" where
  "ui0 = \<lparr> cs_executing = False, cs_done = False, cs_doneMsg = [], cs_alerts = [],
           cs_actionDone = None \<rparr>"

section \<open>Metric cards\<close>

text \<open>
  The \<^verbatim>\<open>display\<close> object of an analysis maps a metric key to its metric, or to nothing
  when the scorer returned none. Of the JSX only the text that depends on the metric is
  modelled, not the style classes.
\<close>

record metric =
  m_label :: string
  m_value :: string
  m_status :: string
  m_sub_text :: string

type_synonym display = "string \<Rightarrow> metric option"

subsection \<open>\<^verbatim>\<open>ImpactDashboard\<close> (\<^verbatim>\<open>src/unnamed/part_003\<close>)\<close>

definition CARD_KEYS :: "string list" where
  "CARD_KEYS = [''effort'', ''schedule'', ''productivity'', ''quality'']"

record risk_card =
  rc_metricKey :: string
  rc_label :: string
  rc_value :: string
  rc_status :: string
  rc_sub_text :: string

text \<open>The value shown for a missing metric is an em dash, here its three UTF-8 bytes.\<close>

definition em_dash :: string where
  "em_dash = [CHR 0xE2, CHR 0x80, CHR 0x94]"

text \<open>The callback of \<^verbatim>\<open>CARD_KEYS.map\<close>.\<close>

definition dashboard_metric :: "display \<Rightarrow> string \<Rightarrow> risk_card" where
  "dashboard_metric display key =
     (case display key of
        None \<Rightarrow>
          \<lparr> rc_metricKey = key,
            rc_label = ''Data unavailable'',
            rc_value = em_dash,
            rc_status = ''warning'',
            rc_sub_text = ''This metric was not returned by the ML model.'' \<rparr>
      | Some d \<Rightarrow>
          \<lparr> rc_metricKey = key,
            rc_label = m_label d,
            rc_value = m_value d,
            rc_status = m_status d,
            rc_sub_text = m_sub_text d \<rparr>)"

text \<open>
  The pill of \<^verbatim>\<open>STATUS_TOKENS\<close>, and \<^verbatim>\<open>STATUS_TOKENS[status] ?? STATUS_TOKENS.warning\<close>
  in \<^verbatim>\<open>RiskCard\<close> (for the three status keys and any status that is no property of an
  object).
\<close>

definition STATUS_TOKENS_pill :: "string \<Rightarrow> string option" where
  "STATUS_TOKENS_pill status =
     (if status = ''safe'' then Some ''SAFE''
      else if status = ''warning'' then Some ''ATTENTION''
      else if status = ''critical'' then Some ''CRITICAL''
      else None)"

definition RiskCard_pill :: "risk_card \<Rightarrow> string" where
  "RiskCard_pill props =
     (case STATUS_TOKENS_pill (rc_status props) of
        None \<Rightarrow> ''ATTENTION''
      | Some p \<Rightarrow> p)"

definition OverallRiskBanner :: "risk_card list \<Rightarrow> string" where
  "OverallRiskBanner metrics =
     (let critCount = length (filter (\<lambda>m. rc_status m = ''critical'') metrics);
          warnCount = length (filter (\<lambda>m. rc_status m = ''warning'') metrics)
      in if critCount \<ge> 2 then ''CRITICAL RISK''
         else if critCount = 1 \<or> warnCount \<ge> 2 then ''ELEVATED RISK''
         else ''LOW RISK'')"

datatype dashboard_view =
    NoImpactData
  | Dashboard string "risk_card list"

definition ImpactDashboard :: "display option \<Rightarrow> dashboard_view" where
  "ImpactDashboard display =
     (case display of
        None \<Rightarrow> NoImpactData
      | Some d \<Rightarrow>
          (let metrics = map (dashboard_metric d) CARD_KEYS
           in Dashboard (OverallRiskBanner metrics) metrics))"

subsection \<open>The result cards of \<^verbatim>\<open>ImpactAnalyzer\<close>\<close>

record analyzer_card =
  ac_key :: string
  ac_heading :: string
  ac_value :: string
  ac_badge :: string
  ac_label :: string
  ac_sub_text :: string

text \<open>\<^verbatim>\<open>getStatusBadge\<close>; the coloured circles are their UTF-8 bytes.\<close>

definition getStatusBadge :: "string \<Rightarrow> string" where
  "getStatusBadge status =
     (if status = ''safe'' then [CHR 0xF0, CHR 0x9F, CHR 0x9F, CHR 0xA2] @ '' Safe''
      else if status = ''warning'' then [CHR 0xF0, CHR 0x9F, CHR 0x9F, CHR 0xA1] @ '' Warning''
      else if status = ''critical'' then [CHR 0xF0, CHR 0x9F, CHR 0x94, CHR 0xB4] @ '' Critical''
      else [CHR 0xE2, CHR 0x9A, CHR 0xAA] @ '' Unknown'')"

text \<open>One row of the list that is mapped: \<^verbatim>\<open>if (!m) return null\<close>, else the card.\<close>

definition analyzer_metric :: "display \<Rightarrow> string \<times> string \<Rightarrow> analyzer_card option" where
  "analyzer_metric display row =
     (case row of (key, heading) \<Rightarrow>
        (case display key of
           None \<Rightarrow> None
         | Some m \<Rightarrow>
             Some \<lparr> ac_key = key, ac_heading = heading, ac_value = m_value m,
                    ac_badge = getStatusBadge (m_status m), ac_label = m_label m,
                    ac_sub_text = m_sub_text m \<rparr>))"

definition ImpactAnalyzer_results :: "display option \<Rightarrow> analyzer_card option list" where
  "ImpactAnalyzer_results display =
     (case display of
        None \<Rightarrow> []
      | Some d \<Rightarrow>
          map (analyzer_metric d)
            [(''effort'', ''Effort Estimate''), (''schedule'', ''Schedule Risk''),
             (''productivity'', ''Productivity Impact''), (''quality'', ''Quality Risk'')])"

subsection \<open>An analysis with two of the four metrics\<close>

definition safe_metric :: metric where
  "safe_metric = \<lparr> m_label = ''On Track'', m_value = ''3 SP'', m_status = ''safe'',
                   m_sub_text = ''Fits the remaining capacity.'' \<rparr>"

definition display0 :: display where
  "display0 = [''effort'' \<mapsto> safe_metric, ''schedule'' \<mapsto> safe_metric]"

section \<open>Analysis history\<close>

text \<open>
  \<^verbatim>\<open>HistoryTable\<close> (\<^verbatim>\<open>src/unnamed/part_002\<close>) asks for the history without a limit and
  shows \<^verbatim>\<open>res.history || []\<close> row by row, in the order received.
\<close>

record history_response =
  hr_history :: "analysis_log list option"

definition HistoryTable_request :: "string \<Rightarrow> body http_request" where
  "HistoryTable_request spaceId = getAnalysisHistory spaceId None"

definition HistoryTable_logs :: "history_response \<Rightarrow> analysis_log list" where
  "HistoryTable_logs res = (case hr_history res of None \<Rightarrow> [] | Some h \<Rightarrow> h)"

text \<open>
  Modelled from the spec: \<^verbatim>\<open>history(spaceId, limit)\<close> of the AnalysisLogStore (the
  route behind \<^verbatim>\<open>GET /impact/history/{spaceId}\<close> is missing from the sources): the
  logs of the space, newest first, bounded by the limit.
\<close>

definition history :: "analysis_log list \<Rightarrow> string \<Rightarrow> nat \<Rightarrow> analysis_log list" where
  "history logs spaceId limit =
     take limit (rev (sort_key al_date (filter (\<lambda>g. al_space_id g = spaceId) logs)))"

definition log_at :: "string \<Rightarrow> int \<Rightarrow> analysis_log" where
  "log_at ident date = \<lparr> al_log_id = ident, al_space_id = ''sp1'', al_date = date,
      al_item = ''Pay'', al_recommendation = ''ADD'', al_taken_action = None,
      al_accepted = None \<rparr>"

section \<open>The ideal burndown series\<close>

record ideal_point =
  ip_day :: nat
  ip_ideal :: rat

text \<open>
  Modelled from the spec: the ideal series of \<^verbatim>\<open>burndown(sprintId)\<close> (the chart
  generator is missing from the sources; \<^verbatim>\<open>BurndownChart\<close> only plots what it
  receives). \<open>days\<close> is the number of days from the start date to the end date, so the
  series has \<open>days + 1\<close> points, one per calendar day with both endpoints, and point \<open>i\<close>
  lies on the line from \<open>total_points\<close> to \<open>0\<close>. A sprint that starts and ends on the same
  day has one point and no line; it is given the start value.
\<close>

definition ideal_burndown :: "nat \<Rightarrow> nat \<Rightarrow> ideal_point list" where
  "ideal_burndown total_points days =
     map (\<lambda>i. \<lparr> ip_day = i,
                 ip_ideal = (if days = 0 then of_nat total_points
                             else of_nat total_points * of_nat (days - i) / of_nat days) \<rparr>)
       [0..<Suc days]"

section \<open>Dashboard: the days cell of a sprint card\<close>

text \<open>
  A date of a sprint is the epoch time in milliseconds that \<^verbatim>\<open>new Date(...)\<close> reads
  from it, or nothing when the field is \<^verbatim>\<open>null\<close>, missing or empty; a date string
  that does not parse (the cell would show \<^verbatim>\<open>NaN\<close>) is left out. The cell is
  computed in the rationals: for a difference of less than \<open>2^53\<close> milliseconds the
  quotient by \<^verbatim>\<open>86400000\<close> in double precision has the ceiling of the exact quotient,
  since a quotient that is not an integer is at least \<open>1/86400000\<close> away from one, which
  is more than the rounding error of a double below \<open>2^27\<close>.
\<close>

record sprint =
  sprint_id :: string
  sprint_status :: string
  start_date :: "int option"
  end_date :: "int option"

datatype days_cell = Days int | NA

text \<open>
  \<^verbatim>\<open>sprint.start_date && sprint.end_date
     ? Math.max(0, Math.ceil((new Date(sprint.end_date) - new Date()) / 86400000)) : 'N/A'\<close>
\<close>

definition days_cell :: "sprint \<Rightarrow> int \<Rightarrow> days_cell" where
  "days_cell sprint now =
     (case (start_date sprint, end_date sprint) of
        (Some s, Some e) \<Rightarrow> Days (max 0 \<lceil>rat_of_int (e - now) / 86400000\<rceil>)
      | _ \<Rightarrow> NA)"

definition sprint0 :: sprint where
  "sprint0 = \<lparr> sprint_id = ''s1'', sprint_status = ''Active'', start_date = Some 0,
               end_date = Some 172800001 \<rparr>"

section \<open>The two clients compared\<close>

lemmas api_defs =
  request_def getSprintContext_def getSprintBurndown_def getSprintBurnup_def
  getVelocityChart_def predictStoryPoints_def analyzeImpact_def createBacklogItem_def
  updateBacklogItem_def recordImpactFeedback_def

lemmas legacy_defs =
  legacy_getSprintContext_def legacy_getSprintBurndown_def legacy_getSprintBurnup_def
  legacy_getVelocityChart_def legacy_predictStoryPoints_def legacy_analyzeImpact_def
  legacy_createBacklogItem_def legacy_updateBacklogItem_def

text \<open>
  C10, as stated, fails: for the sprint \<^verbatim>\<open>s1\<close> the two clients ask for the sprint context
  under different paths (\<^verbatim>\<open>/impact/sprints/s1/context\<close> against
  \<^verbatim>\<open>/impact/sprint/s1/context\<close>), although both use \<^verbatim>\<open>GET\<close>.
\<close>

theorem C10_paths_differ_counterexample:
  "rq_method (getSprintContext ''s1'' :: unit http_request)
     = rq_method (legacy_getSprintContext ''s1'' :: unit http_request)
   \<and> rq_endpoint (getSprintContext ''s1'' :: unit http_request) = ''/impact/sprints/s1/context''
   \<and> rq_endpoint (legacy_getSprintContext ''s1'' :: unit http_request) = ''/impact/sprint/s1/context''
   \<and> rq_endpoint (getSprintContext ''s1'' :: unit http_request)
     \<noteq> rq_endpoint (legacy_getSprintContext ''s1'' :: unit http_request)"
  by (simp add: api_defs legacy_defs)

text \<open>
  C10, amended: for each of the five operations the two clients use the same HTTP method
  (\<^verbatim>\<open>GET\<close> for sprint context, burndown, burnup and velocity, \<^verbatim>\<open>POST\<close> with the same
  body for story-point prediction), but never the same endpoint path: the chart paths of
  \<^verbatim>\<open>api.js\<close> are those of the older client behind the prefix \<^verbatim>\<open>/analytics\<close>, its
  context path reads \<^verbatim>\<open>sprints\<close> where the older one reads \<^verbatim>\<open>sprint\<close>, and its
  prediction path is \<^verbatim>\<open>/ai/predict\<close> where the older one is
  \<^verbatim>\<open>/ai/predict-story-points\<close>. On \<^verbatim>\<open>analyzeImpact\<close> and on creating and updating a
  backlog item the two clients issue the same request.
\<close>

theorem C10_same_method_other_path:
  fixes i :: string and d :: 'b
  shows
  "rq_method (getSprintContext i :: 'b http_request) = ''GET''
   \<and> rq_method (legacy_getSprintContext i :: 'b http_request) = ''GET''
   \<and> rq_endpoint (getSprintContext i :: 'b http_request) = ''/impact/sprints/'' @ i @ ''/context''
   \<and> rq_endpoint (legacy_getSprintContext i :: 'b http_request) = ''/impact/sprint/'' @ i @ ''/context''
   \<and> rq_endpoint (getSprintContext i :: 'b http_request)
        \<noteq> rq_endpoint (legacy_getSprintContext i :: 'b http_request)
   \<and> rq_method (getSprintBurndown i :: 'b http_request) = ''GET''
   \<and> rq_method (legacy_getSprintBurndown i :: 'b http_request) = ''GET''
   \<and> rq_endpoint (getSprintBurndown i :: 'b http_request)
        = ''/analytics'' @ rq_endpoint (legacy_getSprintBurndown i :: 'b http_request)
   \<and> rq_endpoint (getSprintBurndown i :: 'b http_request)
        \<noteq> rq_endpoint (legacy_getSprintBurndown i :: 'b http_request)
   \<and> rq_method (getSprintBurnup i :: 'b http_request) = ''GET''
   \<and> rq_method (legacy_getSprintBurnup i :: 'b http_request) = ''GET''
   \<and> rq_endpoint (getSprintBurnup i :: 'b http_request)
        = ''/analytics'' @ rq_endpoint (legacy_getSprintBurnup i :: 'b http_request)
   \<and> rq_endpoint (getSprintBurnup i :: 'b http_request)
        \<noteq> rq_endpoint (legacy_getSprintBurnup i :: 'b http_request)
   \<and> rq_method (getVelocityChart i :: 'b http_request) = ''GET''
   \<and> rq_method (legacy_getVelocityChart i :: 'b http_request) = ''GET''
   \<and> rq_endpoint (getVelocityChart i :: 'b http_request)
        = ''/analytics'' @ rq_endpoint (legacy_getVelocityChart i :: 'b http_request)
   \<and> rq_endpoint (getVelocityChart i :: 'b http_request)
        \<noteq> rq_endpoint (legacy_getVelocityChart i :: 'b http_request)
   \<and> rq_method (predictStoryPoints d) = ''POST''
   \<and> rq_method (legacy_predictStoryPoints d) = ''POST''
   \<and> rq_body (predictStoryPoints d) = rq_body (legacy_predictStoryPoints d)
   \<and> rq_endpoint (predictStoryPoints d) = ''/ai/predict''
   \<and> rq_endpoint (legacy_predictStoryPoints d) = ''/ai/predict-story-points''
   \<and> rq_endpoint (predictStoryPoints d) \<noteq> rq_endpoint (legacy_predictStoryPoints d)
   \<and> analyzeImpact d = legacy_analyzeImpact d
   \<and> createBacklogItem d = legacy_createBacklogItem d
   \<and> updateBacklogItem i d = legacy_updateBacklogItem i d"
  by (simp add: api_defs legacy_defs)

section \<open>What an action sends\<close>

lemmas model_defs = executeAction_def call_def base_payload_def swap_target_def quoted_def
  logFeedback_def handleAction_def card_type_def taken_action_of_def truthy_def
  backend_serve_def handle_request_def strip_prefix_def strip_suffix_def feedback_log_id_def
  feedback_bodies_def candidate_def old_item_def swap_rec_def pending_log_def backend0_def
  session0_def api_defs

lemmas run_defs = model_defs card0_def ui0_def new_feedback_def action_outcome_def Let_def
  create_request_def

lemma call_simps:
  "sent (fst (call srv req s)) = sent s @ [req]"
  "world (fst (call srv req s)) = fst (srv (world s) req)"
  "snd (call srv req s) = snd (srv (world s) req)"
  by (simp_all add: call_def split: prod.splits)

lemma call_eq:
  "call srv req s = (s', res) \<longleftrightarrow>
     (sent s' = sent s @ [req] \<and> srv (world s) req = (world s', res))"
  by (cases s', cases "srv (world s) req") (auto simp: call_def)

lemma feedback_bodies_Nil: "feedback_bodies [] = []"
  by (simp add: feedback_bodies_def)

lemma feedback_bodies_append:
  "feedback_bodies (xs @ ys) = feedback_bodies xs @ feedback_bodies ys"
  by (simp add: feedback_bodies_def)

lemma feedback_bodies_backlog:
  "feedback_bodies [createBacklogItem (CreateItem p)] = []"
  "feedback_bodies [updateBacklogItem i (UpdateItem sp)] = []"
  "feedback_bodies [recordImpactFeedback l (Feedback f)] = [f]"
  by (simp_all add: feedback_bodies_def api_defs)

lemma executeAction_ADD:
  assumes "action = ''ADD'' \<or> action = ''ACCEPT''"
  shows "executeAction srv action rec sid space fd s =
     (case call srv (create_request space fd sid) s of
        (s1, Inl err) \<Rightarrow> (s1, Inl err)
      | (s1, Inr res) \<Rightarrow>
          (s1, Inr \<lparr> ar_ok = True, ar_requiresManual = False,
                     ar_message = quoted (fd_title fd) @ '' added to sprint.'',
                     ar_data = res \<rparr>))"
  using assms by (auto simp: executeAction_def create_request_def Let_def)

lemma executeAction_DEFER:
  "executeAction srv ''DEFER'' rec sid space fd s =
     (case call srv (create_request space fd None) s of
        (s1, Inl err) \<Rightarrow> (s1, Inl err)
      | (s1, Inr res) \<Rightarrow>
          (s1, Inr \<lparr> ar_ok = True, ar_requiresManual = False,
                     ar_message = quoted (fd_title fd) @ '' saved to backlog for next sprint.'',
                     ar_data = res \<rparr>))"
  by (simp add: executeAction_def create_request_def Let_def)

lemma executeAction_SPLIT:
  "executeAction srv ''SPLIT'' rec sid space fd s =
     (case call srv (create_request space fd None) s of
        (s1, Inl err) \<Rightarrow> (s1, Inl err)
      | (s1, Inr res) \<Rightarrow>
          (s1, Inr \<lparr> ar_ok = True, ar_requiresManual = True,
                     ar_message = quoted (fd_title fd)
                          @ '' saved to backlog. Split it into sub-tickets before planning.'',
                     ar_data = res \<rparr>))"
  by (simp add: executeAction_def create_request_def Let_def)

lemma executeAction_SWAP:
  "executeAction srv ''SWAP'' rec sid space fd s =
     (case swap_target rec of
        None \<Rightarrow> (s, Inl ''No swap target in recommendation.'')
      | Some (targetId, targetTitle) \<Rightarrow>
          (case call srv (updateBacklogItem targetId (UpdateItem None)) s of
             (s1, Inl err) \<Rightarrow> (s1, Inl err)
           | (s1, Inr _) \<Rightarrow>
               (case call srv (create_request space fd sid) s1 of
                  (s2, Inl err) \<Rightarrow> (s2, Inl err)
                | (s2, Inr res) \<Rightarrow>
                    (s2, Inr \<lparr> ar_ok = True, ar_requiresManual = False,
                               ar_message = ''Swapped: '' @ quoted targetTitle
                                 @ [CHR 0x20, CHR 0xE2, CHR 0x86, CHR 0x92] @ '' backlog. ''
                                 @ quoted (fd_title fd)
                                 @ [CHR 0x20, CHR 0xE2, CHR 0x86, CHR 0x92] @ '' sprint.'',
                               ar_data = res \<rparr>))))"
  unfolding executeAction_def create_request_def Let_def by simp

lemma executeAction_unknown:
  assumes "action \<notin> {''ADD'', ''ACCEPT'', ''SWAP'', ''DEFER'', ''SPLIT''}"
  shows "executeAction srv action rec sid space fd s = (s, Inl (''Unknown action: '' @ action))"
  using assms by (simp add: executeAction_def Let_def)

lemma action_cases:
  obtains "action = ''ADD'' \<or> action = ''ACCEPT''" | "action = ''SWAP''" | "action = ''DEFER''"
    | "action = ''SPLIT''" | "action \<notin> {''ADD'', ''ACCEPT'', ''SWAP'', ''DEFER'', ''SPLIT''}"
  by blast

lemma executeAction_sent:
  "\<exists>reqs. sent (fst (executeAction srv action rec sid space fd s)) = sent s @ reqs
      \<and> feedback_bodies reqs = []
      \<and> length reqs \<le> (if action = ''SWAP'' then 2 else 1)"
proof (cases action rule: action_cases)
  case 1
  then show ?thesis
    by (auto simp: executeAction_ADD call_def create_request_def feedback_bodies_backlog
        split: prod.splits sum.splits)
next
  case 2
  show ?thesis
  proof (cases "swap_target rec")
    case None
    then show ?thesis using 2 by (simp add: executeAction_SWAP feedback_bodies_def)
  next
    case (Some t)
    obtain i ttl where t: "t = (i, ttl)" by (cases t)
    obtain s1 r1 where c1: "call srv (updateBacklogItem i (UpdateItem None)) s = (s1, r1)"
      by (cases "call srv (updateBacklogItem i (UpdateItem None)) s")
    obtain s2 r2 where c2: "call srv (create_request space fd sid) s1 = (s2, r2)"
      by (cases "call srv (create_request space fd sid) s1")
    have s1: "sent s1 = sent s @ [updateBacklogItem i (UpdateItem None)]"
      using c1 by (simp add: call_eq)
    have s2: "sent s2 = sent s @ [updateBacklogItem i (UpdateItem None), create_request space fd sid]"
      using c2 s1 by (simp add: call_eq)
    have fb: "feedback_bodies [updateBacklogItem i (UpdateItem None)] = []"
      "feedback_bodies [updateBacklogItem i (UpdateItem None), create_request space fd sid] = []"
      by (simp_all add: feedback_bodies_def api_defs create_request_def)
    show ?thesis
    proof (cases r1)
      case (Inl e)
      then show ?thesis using 2 Some t c1 s1 fb by (simp add: executeAction_SWAP)
    next
      case (Inr x)
      then show ?thesis using 2 Some t c1 c2 s2 fb
        by (cases r2) (simp_all add: executeAction_SWAP)
    qed
  qed
next
  case 3
  then show ?thesis
    by (auto simp: executeAction_DEFER call_def create_request_def feedback_bodies_backlog
        split: prod.splits sum.splits)
next
  case 4
  then show ?thesis
    by (auto simp: executeAction_SPLIT call_def create_request_def feedback_bodies_backlog
        split: prod.splits sum.splits)
next
  case 5
  then show ?thesis
    by (simp add: executeAction_unknown feedback_bodies_def)
qed

lemma logFeedback_sent:
  "sent (logFeedback srv logId accepted takenAction s) =
     sent s @ (case logId of
                 None \<Rightarrow> []
               | Some l \<Rightarrow> if l = [] then []
                   else [recordImpactFeedback l
                           (Feedback \<lparr> fb_accepted = accepted, fb_taken_action = takenAction \<rparr>)])"
  by (simp add: logFeedback_def call_simps split: option.splits)

lemma handleAction_failure:
  assumes "executeAction srv a (cp_recommendation props) (cp_sprintId props)
             (cp_spaceId props) (cp_formData props) s = (s1, Inl err)"
  shows "handleAction srv props a (s, ui) =
           (s1, ui\<lparr>cs_executing := False, cs_alerts := cs_alerts ui @ [''Action failed: '' @ err]\<rparr>)"
  using assms by (simp add: handleAction_def Let_def)

lemma handleAction_success:
  assumes "executeAction srv a (cp_recommendation props) (cp_sprintId props)
             (cp_spaceId props) (cp_formData props) s = (s1, Inr result)"
  shows "handleAction srv props a (s, ui) =
           (logFeedback srv (cp_logId props) True
              (taken_action_of a (card_type (cp_recommendation props))) s1,
            ui\<lparr>cs_executing := False, cs_done := True, cs_doneMsg := ar_message result,
               cs_actionDone := Some result\<rparr>)"
  using assms by (simp add: handleAction_def Let_def)

lemma handleAction_feedback:
  "feedback_bodies (sent (fst (handleAction srv props a (s, ui)))) =
     feedback_bodies (sent s) @
       (if isl (action_outcome srv props a s) \<or> \<not> truthy (cp_logId props) then []
        else [\<lparr> fb_accepted = True,
                fb_taken_action = taken_action_of a (card_type (cp_recommendation props)) \<rparr>])"
proof -
  obtain s1 res where ex: "executeAction srv a (cp_recommendation props) (cp_sprintId props)
             (cp_spaceId props) (cp_formData props) s = (s1, res)"
    by (cases "executeAction srv a (cp_recommendation props) (cp_sprintId props)
             (cp_spaceId props) (cp_formData props) s")
  obtain reqs where reqs: "sent s1 = sent s @ reqs" "feedback_bodies reqs = []"
    using executeAction_sent [of srv a "cp_recommendation props" "cp_sprintId props"
        "cp_spaceId props" "cp_formData props" s] ex by auto
  show ?thesis
  proof (cases res)
    case (Inl err)
    then show ?thesis
      using ex reqs by (simp add: handleAction_failure action_outcome_def feedback_bodies_append)
  next
    case (Inr result)
    then show ?thesis
      using ex reqs
      by (simp add: handleAction_success action_outcome_def feedback_bodies_append
          logFeedback_sent truthy_def feedback_bodies_backlog feedback_bodies_Nil
          split: option.splits)
  qed
qed

lemma new_feedback_eq:
  "new_feedback srv props a s ui =
     (if isl (action_outcome srv props a s) \<or> \<not> truthy (cp_logId props) then []
      else [\<lparr> fb_accepted = True,
              fb_taken_action = taken_action_of a (card_type (cp_recommendation props)) \<rparr>])"
  by (simp add: new_feedback_def handleAction_feedback)

subsection \<open>The backend\<close>

lemma handle_request_error:
  "isl (snd (handle_request b req)) \<longrightarrow> fst (handle_request b req) = b"
  by (simp add: handle_request_def Let_def split: option.split body.split)

lemma backend_quiet:
  assumes "backend_serve b req = (b', Inl e)"
  shows "be_items b' = be_items b"
proof (cases "be_outcomes b")
  case Nil
  then have "handle_request b req = (b', Inl e)" using assms by (simp add: backend_serve_def)
  then show ?thesis using handle_request_error [of b req] by simp
next
  case (Cons ok rest)
  show ?thesis
  proof (cases ok)
    case True
    then have "handle_request (b\<lparr>be_outcomes := rest\<rparr>) req = (b', Inl e)"
      using assms Cons by (simp add: backend_serve_def)
    then show ?thesis using handle_request_error [of "b\<lparr>be_outcomes := rest\<rparr>" req] by simp
  next
    case False
    then show ?thesis using assms Cons by (auto simp: backend_serve_def)
  qed
qed

lemma swap_run:
  "executeAction backend_serve ''SWAP'' (Some swap_rec) (Some ''s1'') ''sp1'' candidate
          (session0 [True, False])
   = (\<lparr> world = \<lparr> be_items = [(''t1'', old_item\<lparr>bp_sprint_id := None\<rparr>)],
                   be_logs = [pending_log], be_outcomes = [] \<rparr>,
        sent = [updateBacklogItem ''t1'' (UpdateItem None),
                create_request ''sp1'' candidate (Some ''s1'')] \<rparr>,
      Inl ''Failed to fetch'')"
  by (simp add: run_defs)

section \<open>The feedback step\<close>

text \<open>
  The store keeps the two fields of a feedback request as they are sent, for the log that
  the endpoint names.
\<close>

lemma feedback_log_id_of_request:
  "feedback_log_id (rq_endpoint (recordImpactFeedback l data)) = Some l"
  by (simp add: feedback_log_id_def strip_prefix_def strip_suffix_def recordImpactFeedback_def
      request_def)

lemma store_keeps_feedback:
  assumes "l \<in> set (map al_log_id (be_logs b))"
  shows "handle_request b (recordImpactFeedback l (Feedback f)) =
           (b\<lparr>be_logs := map (\<lambda>g. if al_log_id g = l
                                    then g\<lparr>al_taken_action := Some (fb_taken_action f),
                                            al_accepted := Some (fb_accepted f)\<rparr>
                                    else g) (be_logs b)\<rparr>, Inr ROk)"
proof -
  have "rq_body (recordImpactFeedback l (Feedback f)) = Some (Feedback f)"
    and "rq_method (recordImpactFeedback l (Feedback f)) = ''PATCH''"
    by (simp_all add: recordImpactFeedback_def request_def)
  then show ?thesis
    using assms feedback_log_id_of_request [of l "Feedback f"]
    by (simp add: handle_request_def)
qed




text \<open>
  C9: every feedback payload that a run of \<^verbatim>\<open>handleAction\<close> sends carries
  \<^verbatim>\<open>accepted = true\<close>, whatever the action and whatever the recommendation.
\<close>

theorem C9_feedback_always_accepted:
  "\<forall>f \<in> set (new_feedback srv props a s ui). fb_accepted f"
  by (simp add: new_feedback_eq)

text \<open>
  C9 at an ignored recommendation: \<^verbatim>\<open>SPLIT\<close> on the swap recommendation sends
  \<^verbatim>\<open>IGNORED_RECOMMENDATION\<close> with \<^verbatim>\<open>accepted = true\<close>.
\<close>

theorem C9_witness:
  "new_feedback backend_serve (card0 (Some ''L1'')) ''SPLIT'' (session0 []) ui0 \<noteq> []
   \<and> fb_taken_action (hd (new_feedback backend_serve (card0 (Some ''L1'')) ''SPLIT'' (session0 []) ui0))
       = ''IGNORED_RECOMMENDATION''
   \<and> fb_accepted (hd (new_feedback backend_serve (card0 (Some ''L1'')) ''SPLIT'' (session0 []) ui0))"
proof -
  have ne: "new_feedback backend_serve (card0 (Some ''L1'')) ''SPLIT'' (session0 []) ui0
     = [\<lparr> fb_accepted = True, fb_taken_action = ''IGNORED_RECOMMENDATION'' \<rparr>]"
    by (simp add: run_defs)
  then have "hd (new_feedback backend_serve (card0 (Some ''L1'')) ''SPLIT'' (session0 []) ui0)
     \<in> set (new_feedback backend_serve (card0 (Some ''L1'')) ''SPLIT'' (session0 []) ui0)"
    by simp
  with C9_feedback_always_accepted [of backend_serve "card0 (Some ''L1'')" "''SPLIT''" "session0 []" ui0]
  have "fb_accepted (hd (new_feedback backend_serve (card0 (Some ''L1'')) ''SPLIT'' (session0 []) ui0))"
    by blast
  then show ?thesis using ne by simp
qed

text \<open>
  C5: once \<^verbatim>\<open>executeAction\<close> has returned its result, \<^verbatim>\<open>handleAction\<close> reaches the
  success state (\<^verbatim>\<open>done\<close> set, the result's message shown, the result passed to
  \<^verbatim>\<open>onActionDone\<close>, no alert, \<^verbatim>\<open>executing\<close> cleared) whatever the server answers
  to the feedback; and after the action the only request sent is that one \<^verbatim>\<open>PATCH\<close>
  (none without a log id), so nothing the client does takes the action back.
\<close>

theorem C5_feedback_failure_does_not_block:
  assumes "executeAction srv a (cp_recommendation props) (cp_sprintId props)
             (cp_spaceId props) (cp_formData props) s = (s1, Inr result)"
  shows "cs_done (snd (handleAction srv props a (s, ui)))
       \<and> cs_doneMsg (snd (handleAction srv props a (s, ui))) = ar_message result
       \<and> cs_actionDone (snd (handleAction srv props a (s, ui))) = Some result
       \<and> cs_alerts (snd (handleAction srv props a (s, ui))) = cs_alerts ui
       \<and> \<not> cs_executing (snd (handleAction srv props a (s, ui)))
       \<and> (case cp_logId props of
            None \<Rightarrow> fst (handleAction srv props a (s, ui)) = s1
          | Some l \<Rightarrow>
              if l = [] then fst (handleAction srv props a (s, ui)) = s1
              else fst (handleAction srv props a (s, ui)) =
                     fst (call srv (recordImpactFeedback l (Feedback
                            \<lparr> fb_accepted = True,
                              fb_taken_action =
                                taken_action_of a (card_type (cp_recommendation props)) \<rparr>)) s1))"
  using assms by (simp add: handleAction_success logFeedback_def split: option.splits)

text \<open>
  C5 where the feedback request fails: \<^verbatim>\<open>ADD\<close> succeeds, the \<^verbatim>\<open>PATCH\<close> is lost,
  the card shows the success message and the new item stays in the sprint.
\<close>

theorem C5_witness:
  "snd (backend_serve (world (fst (executeAction backend_serve ''ADD'' (Some swap_rec)
          (Some ''s1'') ''sp1'' candidate (session0 [True, False]))))
        (recordImpactFeedback ''L1'' (Feedback \<lparr> fb_accepted = True,
             fb_taken_action = ''IGNORED_RECOMMENDATION'' \<rparr>))) = Inl ''Failed to fetch''
   \<and> cs_done (snd (handleAction backend_serve (card0 (Some ''L1'')) ''ADD'' (session0 [True, False], ui0)))
   \<and> cs_doneMsg (snd (handleAction backend_serve (card0 (Some ''L1'')) ''ADD'' (session0 [True, False], ui0)))
        = quoted ''Pay'' @ '' added to sprint.''
   \<and> cs_alerts (snd (handleAction backend_serve (card0 (Some ''L1'')) ''ADD'' (session0 [True, False], ui0))) = []
   \<and> map (bp_sprint_id \<circ> snd) (be_items (world (fst
        (handleAction backend_serve (card0 (Some ''L1'')) ''ADD'' (session0 [True, False], ui0)))))
        = [Some ''s1'', Some ''s1'']"
proof -
  obtain s1 res where ex: "executeAction backend_serve ''ADD''
      (cp_recommendation (card0 (Some ''L1''))) (cp_sprintId (card0 (Some ''L1'')))
      (cp_spaceId (card0 (Some ''L1''))) (cp_formData (card0 (Some ''L1'')))
      (session0 [True, False]) = (s1, res)"
    by (cases "executeAction backend_serve ''ADD''
      (cp_recommendation (card0 (Some ''L1''))) (cp_sprintId (card0 (Some ''L1'')))
      (cp_spaceId (card0 (Some ''L1''))) (cp_formData (card0 (Some ''L1'')))
      (session0 [True, False])")
  have "\<not> isl (snd (executeAction backend_serve ''ADD''
      (cp_recommendation (card0 (Some ''L1''))) (cp_sprintId (card0 (Some ''L1'')))
      (cp_spaceId (card0 (Some ''L1''))) (cp_formData (card0 (Some ''L1'')))
      (session0 [True, False])))"
    by (simp add: run_defs)
  then obtain result where res: "res = Inr result"
    using ex by (cases res) simp_all
  have "ar_message (projr (snd (executeAction backend_serve ''ADD''
      (cp_recommendation (card0 (Some ''L1''))) (cp_sprintId (card0 (Some ''L1'')))
      (cp_spaceId (card0 (Some ''L1''))) (cp_formData (card0 (Some ''L1'')))
      (session0 [True, False])))) = quoted ''Pay'' @ '' added to sprint.''"
    by (simp add: run_defs)
  then have msg: "ar_message result = quoted ''Pay'' @ '' added to sprint.''"
    using ex res by simp
  note main = C5_feedback_failure_does_not_block [OF ex [unfolded res], of ui0]
  have items: "map (bp_sprint_id \<circ> snd) (be_items (world (fst
        (handleAction backend_serve (card0 (Some ''L1'')) ''ADD'' (session0 [True, False], ui0)))))
        = [Some ''s1'', Some ''s1'']"
    by (simp add: run_defs)
  have fails: "snd (backend_serve (world (fst (executeAction backend_serve ''ADD'' (Some swap_rec)
          (Some ''s1'') ''sp1'' candidate (session0 [True, False]))))
        (recordImpactFeedback ''L1'' (Feedback \<lparr> fb_accepted = True,
             fb_taken_action = ''IGNORED_RECOMMENDATION'' \<rparr>))) = Inl ''Failed to fetch''"
    by (simp add: run_defs)
  show ?thesis using main msg res items fails by (simp add: ui0_def)
qed

section \<open>Executed actions and the backlog\<close>

text \<open>
  C3, as stated, fails on \<^verbatim>\<open>SWAP\<close>: when the update of the swap target succeeds and
  the creation of the candidate then fails, \<^verbatim>\<open>executeAction\<close> ends in an error, and
  the target \<^verbatim>\<open>t1\<close> has left the sprint \<^verbatim>\<open>s1\<close> although no candidate was added.
\<close>

theorem C3_swap_partial_failure_counterexample:
  "snd (executeAction backend_serve ''SWAP'' (Some swap_rec) (Some ''s1'') ''sp1'' candidate
          (session0 [True, False])) = Inl ''Failed to fetch''
   \<and> map (\<lambda>(i, p). (i, bp_sprint_id p)) (be_items (world (session0 [True, False])))
       = [(''t1'', Some ''s1'')]
   \<and> map (\<lambda>(i, p). (i, bp_sprint_id p))
         (be_items (world (fst (executeAction backend_serve ''SWAP'' (Some swap_rec) (Some ''s1'')
            ''sp1'' candidate (session0 [True, False])))))
       = [(''t1'', None)]"
  by (simp add: swap_run) (simp add: session0_def backend0_def old_item_def)

text \<open>
  C3, amended: against a server whose failed requests change nothing of what \<open>obs\<close>
  observes, an action that ends in an error has sent at most one request (two for
  \<^verbatim>\<open>SWAP\<close>) and has left the observed state as it was, with one exception:
  \<^verbatim>\<open>SWAP\<close> sends the update of the target and then the creation of the candidate, and
  when the creation fails the state is the one after the update alone. Nothing is rolled
  back.
\<close>

theorem C3_no_rollback:
  fixes srv :: "('w, 'r) server" and obs :: "'w \<Rightarrow> 'o"
  assumes quiet: "\<And>w req w' e. srv w req = (w', Inl e) \<Longrightarrow> obs w' = obs w"
    and fails: "executeAction srv action rec sid space fd s = (s', Inl e)"
  shows "length (sent s') \<le> length (sent s) + (if action = ''SWAP'' then 2 else 1)
       \<and> (obs (world s') = obs (world s)
          \<or> (action = ''SWAP''
             \<and> (\<exists>i ttl w1 r. swap_target rec = Some (i, ttl)
                   \<and> srv (world s) (updateBacklogItem i (UpdateItem None)) = (w1, Inr r)
                   \<and> obs (world s') = obs w1
                   \<and> sent s' = sent s @ [updateBacklogItem i (UpdateItem None),
                                           create_request space fd sid])))"
proof -
  have len: "length (sent s') \<le> length (sent s) + (if action = ''SWAP'' then 2 else 1)"
    using executeAction_sent [of srv action rec sid space fd s] fails by auto
  have one: "obs (world s') = obs (world s)"
    if "call srv req s = (s', Inl e)" for req
    using that quiet by (auto simp: call_eq)
  have rest: "obs (world s') = obs (world s)
          \<or> (action = ''SWAP''
             \<and> (\<exists>i ttl w1 r. swap_target rec = Some (i, ttl)
                   \<and> srv (world s) (updateBacklogItem i (UpdateItem None)) = (w1, Inr r)
                   \<and> obs (world s') = obs w1
                   \<and> sent s' = sent s @ [updateBacklogItem i (UpdateItem None),
                                           create_request space fd sid]))"
  proof (cases action rule: action_cases)
    case 1
    then show ?thesis using fails one [of "create_request space fd sid"]
      by (auto simp: executeAction_ADD split: prod.splits sum.splits)
  next
    case 2
    show ?thesis
    proof (cases "swap_target rec")
      case None
      then show ?thesis using 2 fails by (simp add: executeAction_SWAP)
    next
      case (Some t)
      obtain i ttl where t: "t = (i, ttl)" by (cases t)
      obtain s1 r1 where c1: "call srv (updateBacklogItem i (UpdateItem None)) s = (s1, r1)"
        by (cases "call srv (updateBacklogItem i (UpdateItem None)) s")
      show ?thesis
      proof (cases r1)
        case (Inl e1)
        then have "s' = s1" "e = e1" using 2 Some t c1 fails by (simp_all add: executeAction_SWAP)
        then show ?thesis using one [of "updateBacklogItem i (UpdateItem None)"] c1 Inl by simp
      next
        case (Inr x)
        obtain s2 r2 where c2: "call srv (create_request space fd sid) s1 = (s2, r2)"
          by (cases "call srv (create_request space fd sid) s1")
        have r2: "s2 = s'" "r2 = Inl e"
          using 2 Some t c1 c2 Inr fails by (cases r2; simp add: executeAction_SWAP)+
        have "srv (world s) (updateBacklogItem i (UpdateItem None)) = (world s1, Inr x)"
          and s1: "sent s1 = sent s @ [updateBacklogItem i (UpdateItem None)]"
          using c1 Inr by (simp_all add: call_eq)
        moreover have "obs (world s') = obs (world s1)"
          and "sent s' = sent s1 @ [create_request space fd sid]"
          using c2 r2 quiet by (auto simp: call_eq)
        ultimately show ?thesis using 2 Some t by auto
      qed
    qed
  next
    case 3
    then show ?thesis using fails one [of "create_request space fd None"]
      by (auto simp: executeAction_DEFER split: prod.splits sum.splits)
  next
    case 4
    then show ?thesis using fails one [of "create_request space fd None"]
      by (auto simp: executeAction_SPLIT split: prod.splits sum.splits)
  next
    case 5
    then show ?thesis using fails by (simp add: executeAction_unknown)
  qed
  from len rest show ?thesis by blast
qed

text \<open>
  C3, amended, at a \<^verbatim>\<open>DEFER\<close> whose only request fails: the backlog is unchanged.
\<close>

theorem C3_witness:
  "snd (executeAction backend_serve ''DEFER'' (Some swap_rec) (Some ''s1'') ''sp1'' candidate
          (session0 [False])) = Inl ''Failed to fetch''
   \<and> be_items (world (fst (executeAction backend_serve ''DEFER'' (Some swap_rec) (Some ''s1'')
          ''sp1'' candidate (session0 [False])))) = be_items (world (session0 [False]))
   \<and> length (sent (fst (executeAction backend_serve ''DEFER'' (Some swap_rec) (Some ''s1'')
          ''sp1'' candidate (session0 [False])))) \<le> 1"
proof -
  obtain s' res where ex: "executeAction backend_serve ''DEFER'' (Some swap_rec) (Some ''s1'')
      ''sp1'' candidate (session0 [False]) = (s', res)"
    by (cases "executeAction backend_serve ''DEFER'' (Some swap_rec) (Some ''s1'')
      ''sp1'' candidate (session0 [False])")
  have "snd (executeAction backend_serve ''DEFER'' (Some swap_rec) (Some ''s1'') ''sp1'' candidate
          (session0 [False])) = Inl ''Failed to fetch''"
    by (simp add: run_defs)
  then have res: "res = Inl ''Failed to fetch''" using ex by simp
  have "sent (session0 [False]) = []" by (simp add: session0_def)
  then show ?thesis
    using C3_no_rollback [of backend_serve be_items, OF backend_quiet ex [unfolded res]] ex res
    by simp
qed

text \<open>
  C4: \<^verbatim>\<open>DEFER\<close> sends one request, the creation of the candidate with
  \<^verbatim>\<open>sprint_id: null\<close>; \<^verbatim>\<open>SPLIT\<close> sends the same request and leaves the same
  session, and differs only in its result, which is flagged \<^verbatim>\<open>requiresManual\<close>;
  \<^verbatim>\<open>ADD\<close> sends the creation of the candidate with the selected sprint's id. Each
  ends in an error exactly when the server fails that request.
\<close>

theorem C4_stored_sprint_reference:
  fixes srv :: "('w, 'r) server"
  shows
  "sent (fst (executeAction srv ''DEFER'' rec sid space fd s))
     = sent s @ [create_request space fd None]
   \<and> fst (executeAction srv ''SPLIT'' rec sid space fd s)
     = fst (executeAction srv ''DEFER'' rec sid space fd s)
   \<and> sent (fst (executeAction srv ''ADD'' rec sid space fd s))
     = sent s @ [create_request space fd sid]
   \<and> create_request space fd sid =
       \<lparr> rq_method = ''POST'', rq_endpoint = ''/backlog/'',
         rq_url = ''http://localhost:8000/api/backlog/'',
         rq_body = Some (CreateItem
           \<lparr> bp_title = fd_title fd, bp_description = fd_description fd,
             bp_story_points = fd_story_points fd, bp_priority = fd_priority fd,
             bp_type = fd_type fd, bp_space_id = space, bp_status = ''To Do'',
             bp_sprint_id = sid \<rparr>) \<rparr>
   \<and> (case snd (executeAction srv ''DEFER'' rec sid space fd s) of
        Inl err \<Rightarrow> snd (srv (world s) (create_request space fd None)) = Inl err
      | Inr res \<Rightarrow> ar_ok res \<and> \<not> ar_requiresManual res
          \<and> snd (srv (world s) (create_request space fd None)) = Inr (ar_data res))
   \<and> (case snd (executeAction srv ''SPLIT'' rec sid space fd s) of
        Inl err \<Rightarrow> snd (srv (world s) (create_request space fd None)) = Inl err
      | Inr res \<Rightarrow> ar_ok res \<and> ar_requiresManual res
          \<and> snd (srv (world s) (create_request space fd None)) = Inr (ar_data res))
   \<and> (case snd (executeAction srv ''ADD'' rec sid space fd s) of
        Inl err \<Rightarrow> snd (srv (world s) (create_request space fd sid)) = Inl err
      | Inr res \<Rightarrow> ar_ok res \<and> \<not> ar_requiresManual res
          \<and> snd (srv (world s) (create_request space fd sid)) = Inr (ar_data res))"
proof -
  obtain w r where c: "srv (world s) (create_request space fd None) = (w, r)"
    by (cases "srv (world s) (create_request space fd None)")
  obtain w2 r2 where c2: "srv (world s) (create_request space fd sid) = (w2, r2)"
    by (cases "srv (world s) (create_request space fd sid)")
  have req: "create_request space fd sid =
       \<lparr> rq_method = ''POST'', rq_endpoint = ''/backlog/'',
         rq_url = ''http://localhost:8000/api/backlog/'',
         rq_body = Some (CreateItem
           \<lparr> bp_title = fd_title fd, bp_description = fd_description fd,
             bp_story_points = fd_story_points fd, bp_priority = fd_priority fd,
             bp_type = fd_type fd, bp_space_id = space, bp_status = ''To Do'',
             bp_sprint_id = sid \<rparr>) \<rparr>"
    by (simp add: create_request_def api_defs base_payload_def API_BASE_URL_def)
  have d: "sent (fst (executeAction srv ''DEFER'' rec sid space fd s))
     = sent s @ [create_request space fd None]"
    using c by (cases r) (simp_all add: executeAction_DEFER call_def)
  have sp: "fst (executeAction srv ''SPLIT'' rec sid space fd s)
     = fst (executeAction srv ''DEFER'' rec sid space fd s)"
    using c by (cases r) (simp_all add: executeAction_DEFER executeAction_SPLIT call_def)
  have a: "sent (fst (executeAction srv ''ADD'' rec sid space fd s))
     = sent s @ [create_request space fd sid]"
    using c2 by (cases r2) (simp_all add: executeAction_ADD call_def)
  have rd: "case snd (executeAction srv ''DEFER'' rec sid space fd s) of
        Inl err \<Rightarrow> snd (srv (world s) (create_request space fd None)) = Inl err
      | Inr res \<Rightarrow> ar_ok res \<and> \<not> ar_requiresManual res
          \<and> snd (srv (world s) (create_request space fd None)) = Inr (ar_data res)"
    using c by (cases r) (simp_all add: executeAction_DEFER call_def)
  have rs: "case snd (executeAction srv ''SPLIT'' rec sid space fd s) of
        Inl err \<Rightarrow> snd (srv (world s) (create_request space fd None)) = Inl err
      | Inr res \<Rightarrow> ar_ok res \<and> ar_requiresManual res
          \<and> snd (srv (world s) (create_request space fd None)) = Inr (ar_data res)"
    using c by (cases r) (simp_all add: executeAction_SPLIT call_def)
  have ra: "case snd (executeAction srv ''ADD'' rec sid space fd s) of
        Inl err \<Rightarrow> snd (srv (world s) (create_request space fd sid)) = Inl err
      | Inr res \<Rightarrow> ar_ok res \<and> \<not> ar_requiresManual res
          \<and> snd (srv (world s) (create_request space fd sid)) = Inr (ar_data res)"
    using c2 by (cases r2) (simp_all add: executeAction_ADD call_def)
  from d sp a req rd rs ra show ?thesis by blast
qed

text \<open>
  C4 on the backend: after \<^verbatim>\<open>DEFER\<close> the stored candidate has no sprint, after
  \<^verbatim>\<open>ADD\<close> it is in sprint \<^verbatim>\<open>s1\<close>, and only \<^verbatim>\<open>SPLIT\<close> asks for a manual split.
\<close>

theorem C4_witness:
  "map (bp_sprint_id \<circ> snd) (be_items (world (fst (executeAction backend_serve ''DEFER''
       (Some swap_rec) (Some ''s1'') ''sp1'' candidate (session0 [])))))
     = [Some ''s1'', None]
   \<and> map (bp_sprint_id \<circ> snd) (be_items (world (fst (executeAction backend_serve ''ADD''
       (Some swap_rec) (Some ''s1'') ''sp1'' candidate (session0 [])))))
     = [Some ''s1'', Some ''s1'']
   \<and> map_sum id ar_requiresManual (snd (executeAction backend_serve ''DEFER''
       (Some swap_rec) (Some ''s1'') ''sp1'' candidate (session0 []))) = Inr False
   \<and> map_sum id ar_requiresManual (snd (executeAction backend_serve ''SPLIT''
       (Some swap_rec) (Some ''s1'') ''sp1'' candidate (session0 []))) = Inr True
   \<and> fst (executeAction backend_serve ''SPLIT'' (Some swap_rec) (Some ''s1'') ''sp1''
          candidate (session0 []))
     = fst (executeAction backend_serve ''DEFER'' (Some swap_rec) (Some ''s1'') ''sp1''
          candidate (session0 []))"
proof -
  have items: "map (bp_sprint_id \<circ> snd) (be_items (world (fst (executeAction backend_serve
       ''DEFER'' (Some swap_rec) (Some ''s1'') ''sp1'' candidate (session0 [])))))
     = [Some ''s1'', None]"
    "map (bp_sprint_id \<circ> snd) (be_items (world (fst (executeAction backend_serve ''ADD''
       (Some swap_rec) (Some ''s1'') ''sp1'' candidate (session0 [])))))
     = [Some ''s1'', Some ''s1'']"
    by (simp_all add: run_defs)
  have flags: "map_sum id ar_requiresManual (snd (executeAction backend_serve ''DEFER''
       (Some swap_rec) (Some ''s1'') ''sp1'' candidate (session0 []))) = Inr False"
    "map_sum id ar_requiresManual (snd (executeAction backend_serve ''SPLIT''
       (Some swap_rec) (Some ''s1'') ''sp1'' candidate (session0 []))) = Inr True"
    by (simp_all add: run_defs)
  from C4_stored_sprint_reference [of backend_serve "Some swap_rec" "Some ''s1''" "''sp1''"
      candidate "session0 []"]
  have "fst (executeAction backend_serve ''SPLIT'' (Some swap_rec) (Some ''s1'') ''sp1''
          candidate (session0 []))
     = fst (executeAction backend_serve ''DEFER'' (Some swap_rec) (Some ''s1'') ''sp1''
          candidate (session0 []))"
    by blast
  with items flags show ?thesis by blast
qed

section \<open>Missing metrics\<close>

lemmas card_defs = dashboard_metric_def ImpactDashboard_def OverallRiskBanner_def CARD_KEYS_def
  analyzer_metric_def ImpactAnalyzer_results_def safe_metric_def display0_def
  STATUS_TOKENS_pill_def RiskCard_pill_def getStatusBadge_def Let_def

text \<open>
  C1, as stated, fails: with the metrics \<^verbatim>\<open>productivity\<close> and \<^verbatim>\<open>quality\<close> missing
  and the two others safe, \<^verbatim>\<open>ImpactDashboard\<close> gives each missing metric the status
  tier \<^verbatim>\<open>warning\<close> (its card wears the \<^verbatim>\<open>ATTENTION\<close> pill and the banner counts two
  warnings: \<^verbatim>\<open>ELEVATED RISK\<close>), and \<^verbatim>\<open>ImpactAnalyzer\<close> shows no card at all for
  them, so no "unavailable" state either.
\<close>

theorem C1_missing_metric_counterexample:
  "display0 ''quality'' = None
   \<and> map rc_status (map (dashboard_metric display0) CARD_KEYS)
       = [''safe'', ''safe'', ''warning'', ''warning'']
   \<and> RiskCard_pill (dashboard_metric display0 ''quality'') = ''ATTENTION''
   \<and> ImpactDashboard (Some display0)
       = Dashboard ''ELEVATED RISK'' (map (dashboard_metric display0) CARD_KEYS)
   \<and> map (map_option ac_key) (ImpactAnalyzer_results (Some display0))
       = [Some ''effort'', Some ''schedule'', None, None]"
  by (simp add: card_defs)

text \<open>
  C1, amended: for a missing metric key \<^verbatim>\<open>ImpactDashboard\<close> builds a card labelled
  \<^verbatim>\<open>Data unavailable\<close> with an em dash for the value, the sub-text
  \<^verbatim>\<open>This metric was not returned by the ML model.\<close> and the status \<^verbatim>\<open>warning\<close>,
  and \<^verbatim>\<open>ImpactAnalyzer\<close> renders nothing for that key. For a key that is present both
  show the label, value, status and sub-text that the backend returned, and nothing else
  in their place. Both go through the four keys in the same order.
\<close>

theorem C1_missing_metric_rendering:
  "(case display key of
      None \<Rightarrow>
        dashboard_metric display key =
          \<lparr> rc_metricKey = key, rc_label = ''Data unavailable'', rc_value = em_dash,
            rc_status = ''warning'',
            rc_sub_text = ''This metric was not returned by the ML model.'' \<rparr>
        \<and> analyzer_metric display (key, heading) = None
    | Some m \<Rightarrow>
        dashboard_metric display key =
          \<lparr> rc_metricKey = key, rc_label = m_label m, rc_value = m_value m,
            rc_status = m_status m, rc_sub_text = m_sub_text m \<rparr>
        \<and> map_option (\<lambda>c. (ac_label c, ac_value c, ac_sub_text c, ac_badge c))
             (analyzer_metric display (key, heading))
           = Some (m_label m, m_value m, m_sub_text m, getStatusBadge (m_status m)))
   \<and> (case ImpactDashboard (Some display) of
         NoImpactData \<Rightarrow> False
       | Dashboard banner cards \<Rightarrow> map rc_metricKey cards = CARD_KEYS
           \<and> cards = map (dashboard_metric display) CARD_KEYS)
   \<and> ImpactAnalyzer_results (Some display)
       = [analyzer_metric display (''effort'', ''Effort Estimate''),
          analyzer_metric display (''schedule'', ''Schedule Risk''),
          analyzer_metric display (''productivity'', ''Productivity Impact''),
          analyzer_metric display (''quality'', ''Quality Risk'')]"
  by (simp add: dashboard_metric_def analyzer_metric_def ImpactDashboard_def
      ImpactAnalyzer_results_def Let_def CARD_KEYS_def split: option.splits)

section \<open>History, newest first\<close>

lemma string_of_nat_50: "string_of_nat 50 = ''50''"
  by code_simp

lemma sorted_wrt_take: "sorted_wrt P xs \<Longrightarrow> sorted_wrt P (take n xs)"
  by (induction xs arbitrary: n) (auto simp: take_Cons split: nat.splits dest: in_set_takeD)

lemma history_descending:
  "sorted_wrt (\<lambda>a b. a \<ge> b) (map al_date (history logs spaceId limit))"
proof -
  let ?xs = "sort_key al_date (filter (\<lambda>g. al_space_id g = spaceId) logs)"
  have "sorted (map al_date ?xs)" by simp
  then have "sorted (rev (map al_date (rev ?xs)))" by (simp add: rev_map)
  then have "sorted_wrt (\<lambda>a b. a \<ge> b) (map al_date (rev ?xs))"
    by (simp add: sorted_wrt_rev)
  then have "sorted_wrt (\<lambda>a b. a \<ge> b) (take limit (map al_date (rev ?xs)))"
    by (rule sorted_wrt_take)
  then show ?thesis by (simp add: history_def take_map)
qed

lemma history_distinct:
  assumes "distinct (map al_date (filter (\<lambda>g. al_space_id g = spaceId) logs))"
  shows "distinct (map al_date (history logs spaceId limit))"
proof -
  let ?xs = "sort_key al_date (filter (\<lambda>g. al_space_id g = spaceId) logs)"
  have "mset (map al_date ?xs) = mset (map al_date (filter (\<lambda>g. al_space_id g = spaceId) logs))"
    by simp
  then have "distinct (map al_date ?xs)" using assms by (metis mset_eq_imp_distinct_iff)
  then have "distinct (map al_date (rev ?xs))"
    by (simp only: rev_map [symmetric] distinct_rev)
  then have "distinct (take limit (map al_date (rev ?xs)))" by (rule distinct_take)
  then show ?thesis by (simp add: history_def take_map)
qed

lemma strict_of_distinct:
  fixes xs :: "int list"
  assumes "sorted_wrt (\<lambda>a b. a \<ge> b) xs" and "distinct xs"
  shows "sorted_wrt (\<lambda>a b. a > b) xs"
  using assms by (induction xs) (auto simp: less_le)

text \<open>
  C6, as stated, fails where two logs of a space carry the same date: both are returned,
  and their dates are not strictly descending.
\<close>

theorem C6_equal_dates_counterexample:
  "map al_log_id (history [log_at ''L1'' 100, log_at ''L2'' 100] ''sp1'' 50) = [''L2'', ''L1'']
   \<and> map al_date (history [log_at ''L1'' 100, log_at ''L2'' 100] ''sp1'' 50) = [100, 100]
   \<and> \<not> sorted_wrt (\<lambda>a b. a > b)
          (map al_date (history [log_at ''L1'' 100, log_at ''L2'' 100] ''sp1'' 50))"
  by (simp add: history_def log_at_def)

text \<open>
  C6, amended: \<open>history\<close> returns at most \<open>limit\<close> logs, all of them logs of the space,
  newest first: their dates never increase, and they strictly decrease when no two logs of
  the space carry the same date. The client asks with \<^verbatim>\<open>limit=50\<close> when no limit is
  given (as \<^verbatim>\<open>HistoryTable\<close> does), with the given limit otherwise, and shows the logs
  in the order received.
\<close>

theorem C6_history_newest_first:
  "length (history logs spaceId limit) \<le> limit
   \<and> set (history logs spaceId limit) \<subseteq> {g \<in> set logs. al_space_id g = spaceId}
   \<and> sorted_wrt (\<lambda>a b. a \<ge> b) (map al_date (history logs spaceId limit))
   \<and> (distinct (map al_date (filter (\<lambda>g. al_space_id g = spaceId) logs))
        \<longrightarrow> sorted_wrt (\<lambda>a b. a > b) (map al_date (history logs spaceId limit)))
   \<and> rq_method (HistoryTable_request spaceId) = ''GET''
   \<and> rq_endpoint (HistoryTable_request spaceId) = ''/impact/history/'' @ spaceId @ ''?limit=50''
   \<and> rq_endpoint (getAnalysisHistory spaceId (Some limit) :: body http_request)
        = ''/impact/history/'' @ spaceId @ ''?limit='' @ string_of_nat limit
   \<and> HistoryTable_logs \<lparr> hr_history = Some (history logs spaceId limit) \<rparr>
        = history logs spaceId limit"
proof -
  have len: "length (history logs spaceId limit) \<le> limit"
    by (simp add: history_def)
  have sub: "set (history logs spaceId limit) \<subseteq> {g \<in> set logs. al_space_id g = spaceId}"
    by (auto simp: history_def dest!: in_set_takeD)
  have strict: "distinct (map al_date (filter (\<lambda>g. al_space_id g = spaceId) logs))
        \<longrightarrow> sorted_wrt (\<lambda>a b. a > b) (map al_date (history logs spaceId limit))"
    using strict_of_distinct [OF history_descending history_distinct] by blast
  have req: "rq_method (HistoryTable_request spaceId) = ''GET''"
    "rq_endpoint (HistoryTable_request spaceId) = ''/impact/history/'' @ spaceId @ ''?limit=50''"
    "rq_endpoint (getAnalysisHistory spaceId (Some limit) :: body http_request)
        = ''/impact/history/'' @ spaceId @ ''?limit='' @ string_of_nat limit"
    by (simp_all add: HistoryTable_request_def getAnalysisHistory_def request_def
        string_of_nat_50 del: string_of_nat.simps)
  have shown: "HistoryTable_logs \<lparr> hr_history = Some (history logs spaceId limit) \<rparr>
        = history logs spaceId limit"
    by (simp add: HistoryTable_logs_def)
  from len sub history_descending strict req shown show ?thesis by blast
qed

text \<open>
  C6, amended, on three logs with different dates and the limit 2.
\<close>

theorem C6_witness:
  "map al_log_id (history [log_at ''L1'' 100, log_at ''L2'' 300, log_at ''L3'' 200] ''sp1'' 2)
     = [''L2'', ''L3'']
   \<and> sorted_wrt (\<lambda>a b. a > b)
        (map al_date (history [log_at ''L1'' 100, log_at ''L2'' 300, log_at ''L3'' 200] ''sp1'' 2))"
proof -
  have d: "distinct (map al_date (filter (\<lambda>g. al_space_id g = ''sp1'')
             [log_at ''L1'' 100, log_at ''L2'' 300, log_at ''L3'' 200]))"
    by (simp add: log_at_def)
  have v: "map al_log_id (history [log_at ''L1'' 100, log_at ''L2'' 300, log_at ''L3'' 200] ''sp1'' 2)
     = [''L2'', ''L3'']"
    by (simp add: history_def log_at_def)
  from C6_history_newest_first
         [of "[log_at ''L1'' 100, log_at ''L2'' 300, log_at ''L3'' 200]" "''sp1''" 2] d v
  show ?thesis by blast
qed

section \<open>The ideal line\<close>

lemma interpolation_step:
  fixes T D I :: rat
  assumes "D \<noteq> 0"
  shows "T * (D - I) / D = T - I * (T / D)"
  using assms by (simp add: field_simps)

text \<open>
  C7, as stated, fails for a sprint that starts and ends on the same day: with one point
  per calendar day the series has a single point, which cannot both equal
  \<open>total_points = 5\<close> and be \<open>0\<close>.
\<close>

theorem C7_single_day_counterexample:
  "length (ideal_burndown 5 0) = 1
   \<and> hd (ideal_burndown 5 0) = last (ideal_burndown 5 0)
   \<and> \<not> (ip_ideal (hd (ideal_burndown 5 0)) = 5 \<and> ip_ideal (last (ideal_burndown 5 0)) = 0)"
  by (simp add: ideal_burndown_def)

text \<open>
  C7, amended: for a sprint whose end date is after its start date the ideal series has
  one point per calendar day, both endpoints included, each on the line from
  \<open>total_points\<close> at the start to \<open>0\<close> at the end; so its first value is
  \<open>total_points\<close>, its last value is \<open>0\<close>, and it never increases.
\<close>

theorem C7_ideal_series:
  assumes "0 < days"
  shows "length (ideal_burndown total_points days) = days + 1
       \<and> map ip_day (ideal_burndown total_points days) = [0..<days + 1]
       \<and> ip_ideal (hd (ideal_burndown total_points days)) = of_nat total_points
       \<and> ip_ideal (last (ideal_burndown total_points days)) = 0
       \<and> (\<forall>i \<le> days. ip_ideal (ideal_burndown total_points days ! i)
              = of_nat total_points - of_nat i * (of_nat total_points / of_nat days))
       \<and> sorted_wrt (\<lambda>a b. a \<ge> b) (map ip_ideal (ideal_burndown total_points days))"
proof -
  let ?s = "ideal_burndown total_points days"
  have len: "length ?s = days + 1" by (simp add: ideal_burndown_def)
  have days: "map ip_day ?s = [0..<days + 1]"
    by (simp add: ideal_burndown_def comp_def del: upt_Suc)
  have nth: "ip_ideal (?s ! i) = of_nat total_points * of_nat (days - i) / of_nat days"
    if "i \<le> days" for i
    using that assms by (simp add: ideal_burndown_def nth_map_upt del: upt_Suc)
  have ne: "?s \<noteq> []" using len by auto
  have hd: "ip_ideal (hd ?s) = of_nat total_points"
    using nth [of 0] assms by (simp add: hd_conv_nth [OF ne])
  have last: "ip_ideal (last ?s) = 0"
    using nth [of days] len by (simp add: last_conv_nth [OF ne])
  have lin: "\<forall>i \<le> days. ip_ideal (?s ! i)
              = of_nat total_points - of_nat i * (of_nat total_points / of_nat days)"
  proof (intro allI impI)
    fix i assume i: "i \<le> days"
    have diff: "(of_nat (days - i) :: rat) = of_nat days - of_nat i"
      using i by (simp add: of_nat_diff)
    have nz: "(of_nat days :: rat) \<noteq> 0" using assms by simp
    have "ip_ideal (?s ! i) = of_nat total_points * of_nat (days - i) / of_nat days"
      by (rule nth [OF i])
    also have "\<dots> = of_nat total_points * (of_nat days - of_nat i) / of_nat days"
      by (simp only: diff)
    also have "\<dots> = of_nat total_points - of_nat i * (of_nat total_points / of_nat days)"
      by (rule interpolation_step [OF nz])
    finally show "ip_ideal (?s ! i)
              = of_nat total_points - of_nat i * (of_nat total_points / of_nat days)" .
  qed
  have mono: "sorted_wrt (\<lambda>a b. a \<ge> b) (map ip_ideal ?s)"
  proof -
    have "ip_ideal (?s ! j) \<le> ip_ideal (?s ! i)" if "i < j" "j < length ?s" for i j
    proof -
      have "i \<le> days" "j \<le> days" using that len by auto
      moreover have "(of_nat (days - j) :: rat) \<le> of_nat (days - i)" using that by simp
      ultimately show ?thesis using assms
        by (simp add: nth divide_le_cancel mult_left_mono)
    qed
    then show ?thesis by (simp add: sorted_wrt_iff_nth_less)
  qed
  from len days hd last lin mono show ?thesis by blast
qed

text \<open>
  C7, amended, on a sprint of ten points that ends four days after it starts.
\<close>

theorem C7_witness:
  "ip_ideal (hd (ideal_burndown 10 4)) = 10
   \<and> ip_ideal (last (ideal_burndown 10 4)) = 0
   \<and> map ip_ideal (ideal_burndown 10 4) = [10, 15 / 2, 5, 5 / 2, 0]"
proof -
  have pos: "(0::nat) < 4" by simp
  have v: "map ip_ideal (ideal_burndown 10 4) = [10, 15 / 2, 5, 5 / 2, 0]"
    by code_simp
  from C7_ideal_series [OF pos, of 10]
  have "ip_ideal (hd (ideal_burndown 10 4)) = of_nat 10"
    and "ip_ideal (last (ideal_burndown 10 4)) = 0"
    by blast+
  with v show ?thesis by simp
qed

section \<open>Days remaining\<close>

lemma ceil_days_bounds:
  fixes r :: int
  shows "(\<lceil>rat_of_int r / 86400000\<rceil> - 1) * 86400000 < r \<and> r \<le> \<lceil>rat_of_int r / 86400000\<rceil> * 86400000"
proof -
  define x where "x = rat_of_int r / 86400000"
  have r: "rat_of_int r = x * 86400000" by (simp add: x_def)
  have a: "of_int \<lceil>x\<rceil> - 1 < x" and b: "x \<le> of_int \<lceil>x\<rceil>"
    using ceiling_correct [of x] by auto
  have "(rat_of_int \<lceil>x\<rceil> - 1) * 86400000 < x * 86400000"
    using a by (simp only: mult_less_cancel_right_pos zero_less_numeral)
  then have 1: "rat_of_int ((\<lceil>x\<rceil> - 1) * 86400000) < rat_of_int r"
    by (simp add: r)
  have "x * 86400000 \<le> rat_of_int \<lceil>x\<rceil> * 86400000"
    using b by (simp only: mult_le_cancel_right_pos zero_less_numeral)
  then have 2: "rat_of_int r \<le> rat_of_int (\<lceil>x\<rceil> * 86400000)"
    by (simp add: r)
  from 1 2 show ?thesis unfolding x_def by (simp only: of_int_less_iff of_int_le_iff)
qed

lemma ceil_days_div:
  "\<lceil>rat_of_int r / 86400000\<rceil> = - ((- r) div 86400000)"
  using ceiling_divide_eq_div [of r 86400000, where ?'a = rat] by simp

text \<open>
  C8: for a sprint with a start date and an end date the days cell shows
  \<open>max 0 \<lceil>(end_date - now) / 86400000\<rceil>\<close>: \<open>0\<close> once the end date is reached or
  passed, and otherwise the least positive number of whole days that covers the time left.
  It is never negative.
\<close>

theorem C8_days_remaining:
  assumes "start_date sprint = Some s" and "end_date sprint = Some e"
  shows "days_cell sprint now = Days (max 0 \<lceil>rat_of_int (e - now) / 86400000\<rceil>)
    \<and> (if e \<le> now then days_cell sprint now = Days 0
        else (\<exists>d. days_cell sprint now = Days d \<and> 0 < d
               \<and> (d - 1) * 86400000 < e - now \<and> e - now \<le> d * 86400000))"
proof -
  define c where "c = \<lceil>rat_of_int (e - now) / 86400000\<rceil>"
  have cell: "days_cell sprint now = Days (max 0 c)"
    using assms by (simp add: days_cell_def c_def)
  have bounds: "(c - 1) * 86400000 < e - now" "e - now \<le> c * 86400000"
    using ceil_days_bounds [of "e - now"] by (auto simp only: c_def)
  have second: "if e \<le> now then days_cell sprint now = Days 0
        else (\<exists>d. days_cell sprint now = Days d \<and> 0 < d
               \<and> (d - 1) * 86400000 < e - now \<and> e - now \<le> d * 86400000)"
  proof (cases "e \<le> now")
    case True
    then have "c \<le> 0" using bounds(1) by auto
    then show ?thesis using cell True by (simp add: max_def)
  next
    case False
    then have "0 < c" using bounds(2) by auto
    then show ?thesis using cell False bounds by (auto simp: max_def)
  qed
  show ?thesis using cell second unfolding c_def by blast
qed

text \<open>
  C8 on a sprint that ends two days and one millisecond after the epoch: three days are
  left at the start, one day a day and a millisecond later, none at the end and after it.
\<close>

theorem C8_witness:
  "days_cell sprint0 0 = Days 3
   \<and> days_cell sprint0 86400001 = Days 1
   \<and> days_cell sprint0 172800001 = Days 0
   \<and> days_cell sprint0 999999999 = Days 0"
proof -
  have s: "start_date sprint0 = Some 0" and e: "end_date sprint0 = Some 172800001"
    by (simp_all add: sprint0_def)
  have c1: "\<lceil>rat_of_int (172800001 - 0) / 86400000\<rceil> = 3"
    and c2: "\<lceil>rat_of_int (172800001 - 86400001) / 86400000\<rceil> = 1"
    by (simp_all only: ceil_days_div)
  have "days_cell sprint0 0 = Days (max 0 \<lceil>rat_of_int (172800001 - 0) / 86400000\<rceil>)"
    using C8_days_remaining [OF s e, of 0] by blast
  then have a: "days_cell sprint0 0 = Days 3" by (simp only: c1) simp
  have "days_cell sprint0 86400001
          = Days (max 0 \<lceil>rat_of_int (172800001 - 86400001) / 86400000\<rceil>)"
    using C8_days_remaining [OF s e, of 86400001] by blast
  then have b: "days_cell sprint0 86400001 = Days 1" by (simp only: c2) simp
  have c: "days_cell sprint0 172800001 = Days 0"
    using C8_days_remaining [OF s e, of 172800001] by simp
  have d: "days_cell sprint0 999999999 = Days 0"
    using C8_days_remaining [OF s e, of 999999999] by simp
  from a b c d show ?thesis by blast
qed

end
